theory Spec2Isabelle
  imports Complex_Main
begin

section \<open>RoadPrompt: interactive prompts with validation\<close>

text \<open>
  A shallow embedding of \<^verbatim>\<open>src/roadprompt/prompt.py\<close>. Python strings are
  modelled as \<^typ>\<open>string\<close>; a character stands for one code point in the range
  U+0000..U+00FF, so \<^const>\<open>length\<close> is Python's \<^verbatim>\<open>len\<close> on such strings.
\<close>

subsection \<open>The string operations of the Python library that the program calls\<close>

text \<open>\<^verbatim>\<open>str.isspace\<close> on one character: the code points 9-13, 28-32, 133 and 160.\<close>

definition py_isspace :: "char \<Rightarrow> bool" where
  "py_isspace c = (c \<in> set [CHR 0x09, CHR 0x0A, CHR 0x0B, CHR 0x0C, CHR 0x0D,
                             CHR 0x1C, CHR 0x1D, CHR 0x1E, CHR 0x1F, CHR 0x20,
                             CHR 0x85, CHR 0xA0])"

text \<open>\<^verbatim>\<open>s.rstrip(chars)\<close>, \<^verbatim>\<open>s.strip()\<close>, \<^verbatim>\<open>s.endswith(t)\<close>,
  \<^verbatim>\<open>s.startswith(t)\<close>, \<^verbatim>\<open>s.split(",")\<close>, \<^verbatim>\<open>sep.join(xs)\<close>.\<close>

definition rstrip_chars :: "(char \<Rightarrow> bool) \<Rightarrow> string \<Rightarrow> string" where
  "rstrip_chars p s = rev (dropWhile p (rev s))"

definition strip :: "string \<Rightarrow> string" where
  "strip s = rstrip_chars py_isspace (dropWhile py_isspace s)"

definition endswith :: "string \<Rightarrow> string \<Rightarrow> bool" where
  "endswith s t = (length t \<le> length s \<and> drop (length s - length t) s = t)"

definition startswith :: "string \<Rightarrow> string \<Rightarrow> bool" where
  "startswith s t = (take (length t) s = t)"

fun split_on :: "char \<Rightarrow> string \<Rightarrow> string list" where
  "split_on sep [] = [[]]"
| "split_on sep (c # cs) =
     (if c = sep then [] # split_on sep cs
      else (case split_on sep cs of
              [] \<Rightarrow> [[c]]
            | w # ws \<Rightarrow> (c # w) # ws))"

fun join :: "string \<Rightarrow> string list \<Rightarrow> string" where
  "join sep [] = []"
| "join sep [x] = x"
| "join sep (x # y # ys) = x @ sep @ join sep (y # ys)"

text \<open>\<^verbatim>\<open>str.lower\<close>: on U+0000..U+00FF it moves A-Z, U+00C0..U+00D6 and
  U+00D8..U+00DE down by 32 and leaves every other character alone.\<close>

definition upper_chars :: string where
  "upper_chars = ''ABCDEFGHIJKLMNOPQRSTUVWXYZ'' @
     [CHR 0xC0, CHR 0xC1, CHR 0xC2, CHR 0xC3, CHR 0xC4, CHR 0xC5, CHR 0xC6, CHR 0xC7,
      CHR 0xC8, CHR 0xC9, CHR 0xCA, CHR 0xCB, CHR 0xCC, CHR 0xCD, CHR 0xCE, CHR 0xCF,
      CHR 0xD0, CHR 0xD1, CHR 0xD2, CHR 0xD3, CHR 0xD4, CHR 0xD5, CHR 0xD6,
      CHR 0xD8, CHR 0xD9, CHR 0xDA, CHR 0xDB, CHR 0xDC, CHR 0xDD, CHR 0xDE]"

definition lower_chars :: string where
  "lower_chars = ''abcdefghijklmnopqrstuvwxyz'' @
     [CHR 0xE0, CHR 0xE1, CHR 0xE2, CHR 0xE3, CHR 0xE4, CHR 0xE5, CHR 0xE6, CHR 0xE7,
      CHR 0xE8, CHR 0xE9, CHR 0xEA, CHR 0xEB, CHR 0xEC, CHR 0xED, CHR 0xEE, CHR 0xEF,
      CHR 0xF0, CHR 0xF1, CHR 0xF2, CHR 0xF3, CHR 0xF4, CHR 0xF5, CHR 0xF6,
      CHR 0xF8, CHR 0xF9, CHR 0xFA, CHR 0xFB, CHR 0xFC, CHR 0xFD, CHR 0xFE]"

definition lower_char :: "char \<Rightarrow> char" where
  "lower_char c = (case map_of (zip upper_chars lower_chars) c of Some l \<Rightarrow> l | None \<Rightarrow> c)"

definition lower :: "string \<Rightarrow> string" where
  "lower s = map lower_char s"

text \<open>The decimal text of an integer: digits, and a minus sign for a negative number.\<close>

definition digit_char :: "nat \<Rightarrow> char" where
  "digit_char d = ''0123456789'' ! d"

function str_nat :: "nat \<Rightarrow> string" where
  "str_nat n = (if n < 10 then [digit_char n] else str_nat (n div 10) @ [digit_char (n mod 10)])"
  by pat_completeness auto
termination
  by (relation "measure id") auto

declare str_nat.simps [simp del]

definition str_int :: "int \<Rightarrow> string" where
  "str_int i = (if i < 0 then CHR ''-'' # str_nat (nat (- i)) else str_nat (nat i))"

text \<open>
  How an f-string prints an integer. The interpreter refuses to convert an integer of
  more than \<^verbatim>\<open>sys.get_int_max_str_digits()\<close> decimal digits, the sign not counted,
  and raises \<^verbatim>\<open>ValueError\<close>, which is \<^const>\<open>None\<close> here. That limit is the
  parameter \<open>maxd\<close>; 0 switches it off, and a running interpreter has 0 or at least
  640 (4300 unless it is set). A position in a list and the length of a list are
  printed with \<^const>\<open>str_int\<close>: no list has that many elements.
\<close>

definition int_printable :: "nat \<Rightarrow> int \<Rightarrow> bool" where
  "int_printable maxd k = (maxd = 0 \<or> length (str_nat (nat \<bar>k\<bar>)) \<le> maxd)"

definition fstr_int :: "nat \<Rightarrow> int \<Rightarrow> string option" where
  "fstr_int maxd k = (if int_printable maxd k then Some (str_int k) else None)"

text \<open>
  \<^verbatim>\<open>int(s)\<close> on a string, base 10: surrounding whitespace is skipped, then an
  optional sign, then decimal digits in which single underscores may stand between two
  digits. Anything else raises \<^verbatim>\<open>ValueError\<close>, which is \<^const>\<open>None\<close> here.
  The whitespace that \<^verbatim>\<open>int\<close> skips is the ASCII set 9-13 and 32, and also 133
  and 160 (which the interpreter maps to a space first); 28-31 are not skipped.
  The limit \<open>maxd\<close> on the number of digits holds here as well: a number of more
  digits is refused with \<^verbatim>\<open>ValueError\<close>.
\<close>

definition num_space :: "char \<Rightarrow> bool" where
  "num_space c = (c \<in> set [CHR 0x09, CHR 0x0A, CHR 0x0B, CHR 0x0C, CHR 0x0D, CHR 0x20,
                            CHR 0x85, CHR 0xA0])"

definition is_digit :: "char \<Rightarrow> bool" where
  "is_digit c = (c \<in> set ''0123456789'')"

definition digit_val :: "char \<Rightarrow> nat" where
  "digit_val c = (case map_of (zip ''0123456789'' [0, 1, 2, 3, 4, 5, 6, 7, 8, 9]) c of
                    Some d \<Rightarrow> d | None \<Rightarrow> 0)"

text \<open>Digits with underscores: \<open>None\<close> unless every underscore stands between two
  digits and there is at least one digit; otherwise the digits alone.\<close>

fun digits_underscored :: "string \<Rightarrow> string option" where
  "digits_underscored [] = None"
| "digits_underscored [c] = (if is_digit c then Some [c] else None)"
| "digits_underscored (c # d # cs) =
     (if \<not> is_digit c then None
      else if d = CHR ''_'' then map_option ((#) c) (digits_underscored cs)
      else map_option ((#) c) (digits_underscored (d # cs)))"

definition nat_of_digits :: "string \<Rightarrow> nat" where
  "nat_of_digits ds = foldl (\<lambda>acc c. 10 * acc + digit_val c) 0 ds"

definition py_int :: "nat \<Rightarrow> string \<Rightarrow> int option" where
  "py_int maxd s =
     (let body = rstrip_chars num_space (dropWhile num_space s);
          neg = (body \<noteq> [] \<and> hd body = CHR ''-'');
          unsigned = (if body \<noteq> [] \<and> (hd body = CHR ''-'' \<or> hd body = CHR ''+'')
                      then tl body else body)
      in case digits_underscored unsigned of
           None \<Rightarrow> None
         | Some ds \<Rightarrow>
             if maxd \<noteq> 0 \<and> length ds > maxd then None
             else Some (if neg then - int (nat_of_digits ds) else int (nat_of_digits ds)))"

subsection \<open>Data model\<close>

text \<open>The dataclasses \<^verbatim>\<open>Choice\<close> and \<^verbatim>\<open>ValidationResult\<close>. The field
  \<^verbatim>\<open>value\<close> of a choice is \<open>cvalue\<close> here.\<close>

record 'a Choice =
  cvalue :: 'a
  label :: string
  disabled :: bool
  hint :: string

record ValidationResult =
  valid :: bool
  message :: string

definition Result :: "bool \<Rightarrow> string \<Rightarrow> ValidationResult" where
  "Result v m = \<lparr>valid = v, message = m\<rparr>"

text \<open>\<^verbatim>\<open>ValidationResult(True)\<close>: the message takes its default, the empty string.\<close>

definition Valid :: ValidationResult where
  "Valid = Result True []"

text \<open>The exceptions that the program can meet. \<^verbatim>\<open>ValueError\<close> is what
  \<^verbatim>\<open>int\<close> and \<^verbatim>\<open>float\<close> raise on a string they cannot parse.\<close>

datatype error = ValueError | IndexError | EOFError

text \<open>A validator is a callable from a string to a \<^verbatim>\<open>ValidationResult\<close>; calling it
  may raise.\<close>

type_synonym validator = "string \<Rightarrow> error + ValidationResult"

subsection \<open>Validator.required, min_length, max_length\<close>




subsection \<open>Validator.pattern and email\<close>

text \<open>
  A compiled pattern, as \<^verbatim>\<open>re.compile\<close> returns it, for the part of the pattern
  language that has no groups to refer back to: a character out of a set, a character
  outside a set, sequence, alternative, repetition, and the anchors \<^verbatim>\<open>^\<close> and
  \<^verbatim>\<open>$\<close>. \<^verbatim>\<open>r+\<close> is \<open>Seq r (Star r)\<close>, \<^verbatim>\<open>r{2,}\<close> is
  \<open>Seq r (Seq r (Star r))\<close>, and \<^verbatim>\<open>.\<close> is \<open>NoneOf ''\<newline>''\<close>.
\<close>

datatype regex =
    Eps
  | OneOf string
  | NoneOf string
  | Seq regex regex
  | Alt regex regex
  | Star regex
  | Bol
  | Eol

text \<open>
  \<open>matches r s i j\<close>: the pattern matches the characters of \<open>s\<close> from position \<open>i\<close>
  up to position \<open>j\<close>. \<^verbatim>\<open>^\<close> matches at the start of the string, \<^verbatim>\<open>$\<close> at its
  end and before a newline that ends it.
\<close>

function matches :: "regex \<Rightarrow> string \<Rightarrow> nat \<Rightarrow> nat \<Rightarrow> bool" where
  "matches Eps s i j = (i = j)"
| "matches (OneOf cs) s i j = (j = Suc i \<and> i < length s \<and> s ! i \<in> set cs)"
| "matches (NoneOf cs) s i j = (j = Suc i \<and> i < length s \<and> s ! i \<notin> set cs)"
| "matches (Seq a b) s i j = (\<exists>k \<in> {i..j}. matches a s i k \<and> matches b s k j)"
| "matches (Alt a b) s i j = (matches a s i j \<or> matches b s i j)"
| "matches (Star a) s i j =
     (i = j \<or> (\<exists>k \<in> {i<..j}. matches a s i k \<and> matches (Star a) s k j))"
| "matches Bol s i j = (i = j \<and> i = 0)"
| "matches Eol s i j =
     (i = j \<and> (i = length s \<or> (Suc i = length s \<and> s ! i = CHR ''\<newline>'')))"
  by pat_completeness auto
termination
  by (relation "measures [\<lambda>(r, s, i, j). size r, \<lambda>(r, s, i, j). j - i]") auto

declare matches.simps [simp del]

text \<open>A pattern in which \<^verbatim>\<open>$\<close> does not occur.\<close>

fun eol_free :: "regex \<Rightarrow> bool" where
  "eol_free Eol = False"
| "eol_free (Seq a b) = (eol_free a \<and> eol_free b)"
| "eol_free (Alt a b) = (eol_free a \<and> eol_free b)"
| "eol_free (Star a) = eol_free a"
| "eol_free r = True"

text \<open>\<^verbatim>\<open>compiled.match(value)\<close> is not \<^verbatim>\<open>None\<close>: the pattern matches from
  position 0 up to some position of the string.\<close>

definition re_match :: "regex \<Rightarrow> string \<Rightarrow> bool" where
  "re_match r s = (\<exists>j \<in> {0..length s}. matches r s 0 j)"

definition pattern :: "regex \<Rightarrow> string \<Rightarrow> validator" where
  "pattern compiled msg v =
     (if \<not> re_match compiled v then Inr (Result False msg) else Inr Valid)"




subsection \<open>Validator.number\<close>

text \<open>
  A Python \<^verbatim>\<open>float\<close>: a finite value, an infinity or not-a-number. The two zeros
  are one value here; no comparison tells them apart. A bound of \<^verbatim>\<open>number\<close> is a
  \<^verbatim>\<open>float\<close> or an \<^verbatim>\<open>int\<close>.
\<close>

datatype pyfloat = Finite rat | PInf | NInf | NaN

datatype pynum = PyInt int | PyFloat pyfloat

definition num_val :: "pynum \<Rightarrow> pyfloat" where
  "num_val x = (case x of PyInt k \<Rightarrow> Finite (of_int k) | PyFloat f \<Rightarrow> f)"

text \<open>\<^verbatim>\<open>x < y\<close> on numbers: false as soon as one side is not-a-number.
  \<^verbatim>\<open>x > y\<close> is \<open>float_less y x\<close>.\<close>

fun float_less :: "pyfloat \<Rightarrow> pyfloat \<Rightarrow> bool" where
  "float_less NaN y = False"
| "float_less x NaN = False"
| "float_less x NInf = False"
| "float_less NInf y = True"
| "float_less PInf y = False"
| "float_less x PInf = True"
| "float_less (Finite a) (Finite b) = (a < b)"


text \<open>Rounding a rational number to the nearest binary64 value, ties to the even
  significand; beyond the largest finite value the result is an infinity.\<close>

function bits :: "nat \<Rightarrow> nat" where
  "bits n = (if n = 0 then 0 else Suc (bits (n div 2)))"
  by pat_completeness auto
termination
  by (relation "measure id") auto

declare bits.simps [simp del]

definition pow2 :: "int \<Rightarrow> rat" where
  "pow2 e = (if 0 \<le> e then 2 ^ nat e else 1 / 2 ^ nat (- e))"

definition binade :: "rat \<Rightarrow> int" where
  "binade q =
     (let (a, b) = quotient_of q;
          e = int (bits (nat a)) - int (bits (nat b))
      in if pow2 e \<le> q then e else e - 1)"

definition round_even :: "rat \<Rightarrow> int" where
  "round_even q =
     (let f = \<lfloor>q\<rfloor>; d = q - of_int f
      in if d < 1 / 2 then f
         else if 1 / 2 < d then f + 1
         else if even f then f else f + 1)"

definition round_double :: "rat \<Rightarrow> pyfloat" where
  "round_double q =
     (if q = 0 then Finite 0
      else
        (let a = \<bar>q\<bar>;
             e = max (binade a) (- 1022);
             ulp = pow2 (e - 52);
             r = of_int (round_even (a / ulp)) * ulp
         in if pow2 1024 \<le> r then (if q < 0 then NInf else PInf)
            else Finite (if q < 0 then - r else r)))"

text \<open>
  \<^verbatim>\<open>float(s)\<close> on a string: surrounding whitespace is skipped; underscores may stand
  between two digits; then an optional sign and \<open>inf\<close>, \<open>infinity\<close> or \<open>nan\<close> in any
  case, or a decimal number with an optional fraction and an optional exponent.
  \<^const>\<open>None\<close> is \<^verbatim>\<open>ValueError\<close>.
\<close>

fun strip_underscores :: "char \<Rightarrow> string \<Rightarrow> string option" where
  "strip_underscores prev [] = (if prev = CHR ''_'' then None else Some [])"
| "strip_underscores prev (c # cs) =
     (if c = CHR ''_'' then
        (if is_digit prev then strip_underscores c cs else None)
      else if prev = CHR ''_'' \<and> \<not> is_digit c then None
      else map_option ((#) c) (strip_underscores c cs))"

definition parse_exponent :: "string \<Rightarrow> int option" where
  "parse_exponent t =
     (case t of
        [] \<Rightarrow> Some 0
      | e # u \<Rightarrow>
          if e = CHR ''e'' \<or> e = CHR ''E'' then
            (let neg = (u \<noteq> [] \<and> hd u = CHR ''-'');
                 ds = (if u \<noteq> [] \<and> (hd u = CHR ''-'' \<or> hd u = CHR ''+'') then tl u else u)
             in if ds \<noteq> [] \<and> list_all is_digit ds
                then Some (if neg then - int (nat_of_digits ds) else int (nat_of_digits ds))
                else None)
          else None)"

definition pow10 :: "int \<Rightarrow> rat" where
  "pow10 e = (if 0 \<le> e then 10 ^ nat e else 1 / 10 ^ nat (- e))"

definition parse_decimal :: "string \<Rightarrow> rat option" where
  "parse_decimal t =
     (let ip = takeWhile is_digit t;
          r1 = dropWhile is_digit t;
          fp = (case r1 of [] \<Rightarrow> [] | c # u \<Rightarrow> if c = CHR ''.'' then takeWhile is_digit u else []);
          r2 = (case r1 of [] \<Rightarrow> [] | c # u \<Rightarrow> if c = CHR ''.'' then dropWhile is_digit u else r1)
      in if ip = [] \<and> fp = [] then None
         else (case parse_exponent r2 of
                 None \<Rightarrow> None
               | Some e \<Rightarrow>
                   Some (of_nat (nat_of_digits (ip @ fp)) * pow10 (e - int (length fp)))))"

definition py_float :: "string \<Rightarrow> pyfloat option" where
  "py_float s =
     (case strip_underscores CHR 0x00 (rstrip_chars num_space (dropWhile num_space s)) of
        None \<Rightarrow> None
      | Some body \<Rightarrow>
          (let neg = (body \<noteq> [] \<and> hd body = CHR ''-'');
               unsigned = (if body \<noteq> [] \<and> (hd body = CHR ''-'' \<or> hd body = CHR ''+'')
                           then tl body else body)
           in if lower unsigned = ''inf'' \<or> lower unsigned = ''infinity''
              then Some (if neg then NInf else PInf)
              else if lower unsigned = ''nan'' then Some NaN
              else (case parse_decimal unsigned of
                      None \<Rightarrow> None
                    | Some q \<Rightarrow> Some (round_double (if neg then - q else q)))))"



definition str_num :: "nat \<Rightarrow> (pyfloat \<Rightarrow> string) \<Rightarrow> pynum \<Rightarrow> string option" where
  "str_num maxd fmt x = (case x of PyInt k \<Rightarrow> fstr_int maxd k | PyFloat f \<Rightarrow> Some (fmt f))"

text \<open>The body of the \<^verbatim>\<open>try\<close> block of \<^verbatim>\<open>number\<close>, then the block with its
  \<^verbatim>\<open>except ValueError\<close> clause. The messages are built inside the block, so a
  bound that cannot be printed ends in the same clause as a string that cannot be
  parsed.\<close>

definition number_try ::
  "nat \<Rightarrow> (pyfloat \<Rightarrow> string) \<Rightarrow> pynum option \<Rightarrow> pynum option \<Rightarrow> validator" where
  "number_try maxd fmt min_val max_val v =
     (case py_float v of
        None \<Rightarrow> Inl ValueError
      | Some num \<Rightarrow>
          if min_val \<noteq> None \<and> float_less num (num_val (the min_val)) then
            (case str_num maxd fmt (the min_val) of
               None \<Rightarrow> Inl ValueError
             | Some t \<Rightarrow> Inr (Result False (''Minimum value is '' @ t)))
          else if max_val \<noteq> None \<and> float_less (num_val (the max_val)) num then
            (case str_num maxd fmt (the max_val) of
               None \<Rightarrow> Inl ValueError
             | Some t \<Rightarrow> Inr (Result False (''Maximum value is '' @ t)))
          else Inr Valid)"

definition number ::
  "nat \<Rightarrow> (pyfloat \<Rightarrow> string) \<Rightarrow> pynum option \<Rightarrow> pynum option \<Rightarrow> validator" where
  "number maxd fmt min_val max_val v =
     (case number_try maxd fmt min_val max_val v of
        Inl ValueError \<Rightarrow> Inr (Result False ''Must be a number'')
      | Inl e \<Rightarrow> Inl e
      | Inr result \<Rightarrow> Inr result)"




subsection \<open>The streams\<close>

text \<open>
  What a prompt does to its streams is recorded in order: every call of
  \<^verbatim>\<open>_write\<close> with its text, every call of \<^verbatim>\<open>_read\<close> or
  \<^verbatim>\<open>getpass\<close> with the line it returned. \<open>stream_in\<close> holds what the coming
  calls of \<^verbatim>\<open>readline\<close> will return; at end of input \<^verbatim>\<open>readline\<close> returns
  the empty string, and goes on doing so. \<open>tty_in\<close> is the terminal that
  \<^verbatim>\<open>getpass\<close> reads. The methods \<^verbatim>\<open>_write\<close> and \<^verbatim>\<open>_read\<close> are
  \<open>write_out\<close> and \<open>read_in\<close>, and \<^verbatim>\<open>Prompt.text\<close> is \<open>text_prompt\<close>.
\<close>

datatype event = Wrote string | ReadLine string

record io =
  stream_in :: "string list"
  tty_in :: "string list"
  transcript :: "event list"

datatype 'a outcome = Returned 'a | Raised error | OutOfFuel

definition write_out :: "string \<Rightarrow> io \<Rightarrow> io" where
  "write_out t s = s\<lparr>transcript := transcript s @ [Wrote t]\<rparr>"

definition readline :: "io \<Rightarrow> string \<times> io" where
  "readline s = (case stream_in s of
                   [] \<Rightarrow> ([], s)
                 | l # ls \<Rightarrow> (l, s\<lparr>stream_in := ls\<rparr>))"

definition read_in :: "io \<Rightarrow> string \<times> io" where
  "read_in s = (let (l, s') = readline s;
                 v = rstrip_chars (\<lambda>c. c = CHR ''\<newline>'') l
             in (v, s'\<lparr>transcript := transcript s' @ [ReadLine v]\<rparr>))"

text \<open>\<^verbatim>\<open>getpass.getpass("")\<close>: one line from the terminal without its final
  newline, \<^verbatim>\<open>EOFError\<close> when the terminal is at end of input.\<close>

definition getpass :: "io \<Rightarrow> error + (string \<times> io)" where
  "getpass s = (case tty_in s of
                  [] \<Rightarrow> Inl EOFError
                | l # ls \<Rightarrow>
                    (let v = (if l \<noteq> [] \<and> last l = CHR ''\<newline>'' then butlast l else l)
                     in Inr (v, s\<lparr>tty_in := ls, transcript := transcript s @ [ReadLine v]\<rparr>)))"

text \<open>The mark that starts every diagnostic line: two spaces, U+2717 (as the three
  bytes the stream receives), one space.\<close>

definition cross :: string where
  "cross = ''  '' @ [CHR 0xE2, CHR 0x9C, CHR 0x97] @ '' ''"

definition diagnostic :: "string \<Rightarrow> string" where
  "diagnostic m = cross @ m @ ''\<newline>''"

subsection \<open>The validator chain\<close>

text \<open>The \<^verbatim>\<open>for validator in validators\<close> loop of \<^verbatim>\<open>text\<close> and
  \<^verbatim>\<open>autocomplete\<close>: the result of the first validator that fails, if any; an
  exception that a validator raises ends the loop.\<close>

fun first_failure :: "validator list \<Rightarrow> string \<Rightarrow> error + ValidationResult option" where
  "first_failure [] v = Inr None"
| "first_failure (f # fs) v =
     (case f v of
        Inl e \<Rightarrow> Inl e
      | Inr result \<Rightarrow> if \<not> valid result then Inr (Some result) else first_failure fs v)"

subsection \<open>Prompt.text\<close>

text \<open>
  Every \<^verbatim>\<open>while True\<close> loop takes a bound on its number of iterations as first
  argument and answers \<^const>\<open>OutOfFuel\<close> when the bound is used up.
\<close>

text \<open>The local \<^verbatim>\<open>prompt\<close>: the message, the default in brackets when there is
  one, a colon and a space.\<close>

definition prompt_of :: "string \<Rightarrow> string \<Rightarrow> string" where
  "prompt_of msg dflt = msg @ (if dflt \<noteq> [] then '' ['' @ dflt @ '']'' else []) @ '': ''"

fun text_prompt ::
  "nat \<Rightarrow> string \<Rightarrow> string \<Rightarrow> validator list \<Rightarrow> bool \<Rightarrow> io \<Rightarrow> string outcome \<times> io" where
  "text_prompt 0 msg dflt validators password s = (OutOfFuel, s)"
| "text_prompt (Suc n) msg dflt validators password s =
     (let s1 = write_out (prompt_of msg dflt) s
      in case (if password then getpass s1 else Inr (read_in s1)) of
           Inl e \<Rightarrow> (Raised e, s1)
         | Inr (raw, s2) \<Rightarrow>
             (let v = (if raw = [] \<and> dflt \<noteq> [] then dflt else raw)
              in case first_failure validators v of
                   Inl e \<Rightarrow> (Raised e, s2)
                 | Inr (Some result) \<Rightarrow>
                     text_prompt n msg dflt validators password
                       (write_out (diagnostic (message result)) s2)
                 | Inr None \<Rightarrow> (Returned v, s2)))"

subsection \<open>Prompt.confirm\<close>

definition confirm :: "string \<Rightarrow> bool \<Rightarrow> io \<Rightarrow> bool \<times> io" where
  "confirm msg dflt s =
     (let h = (if dflt then ''[Y/n]'' else ''[y/N]'');
          s1 = write_out (msg @ '' '' @ h @ '': '') s;
          (raw, s2) = read_in s1;
          v = lower raw
      in if v = [] then (dflt, s2)
         else (v \<in> set [''y'', ''yes'', ''true'', ''1''], s2))"

subsection \<open>Prompt.select\<close>

text \<open>\<^verbatim>\<open>choices[i]\<close> for a Python integer: a negative index counts from the end,
  an index out of range raises \<^verbatim>\<open>IndexError\<close>.\<close>

definition py_index :: "'a list \<Rightarrow> int \<Rightarrow> error + 'a" where
  "py_index xs i =
     (if 0 \<le> i \<and> i < int (length xs) then Inr (xs ! nat i)
      else if i < 0 \<and> - int (length xs) \<le> i then Inr (xs ! nat (int (length xs) + i))
      else Inl IndexError)"

definition select_line :: "int \<Rightarrow> nat \<Rightarrow> 'a Choice \<Rightarrow> string" where
  "select_line dflt i choice =
     ''  '' @ (if int i = dflt then ''>'' else '' '') @ '' '' @ str_int (int i + 1) @ ''. ''
     @ label choice
     @ (if disabled choice then '' (disabled)'' else [])
     @ (if hint choice \<noteq> [] then '' - '' @ hint choice else [])
     @ ''\<newline>''"

definition select_header :: "string \<Rightarrow> 'a Choice list \<Rightarrow> int \<Rightarrow> io \<Rightarrow> io" where
  "select_header msg choices dflt s =
     fold (\<lambda>(i, choice). write_out (select_line dflt i choice)) (enumerate 0 choices)
       (write_out (msg @ ''\<newline>'') s)"

fun select_loop :: "nat \<Rightarrow> nat \<Rightarrow> 'a Choice list \<Rightarrow> int \<Rightarrow> io \<Rightarrow> 'a outcome \<times> io" where
  "select_loop 0 maxd choices dflt s = (OutOfFuel, s)"
| "select_loop (Suc n) maxd choices dflt s =
     (let s1 = write_out (''Enter choice [1-'' @ str_int (int (length choices)) @ '']: '') s;
          (v, s2) = read_in s1
      in if v = [] then
           (case py_index choices dflt of
              Inl e \<Rightarrow> (Raised e, s2)
            | Inr choice \<Rightarrow> (Returned (cvalue choice), s2))
         else
           (case py_int maxd v of
              None \<Rightarrow> select_loop n maxd choices dflt (write_out (diagnostic ''Invalid selection'') s2)
            | Some k \<Rightarrow>
                (let idx = k - 1
                 in if 0 \<le> idx \<and> idx < int (length choices) then
                      (if disabled (choices ! nat idx) then
                         select_loop n maxd choices dflt
                           (write_out (diagnostic ''This option is disabled'') s2)
                       else (Returned (cvalue (choices ! nat idx)), s2))
                    else select_loop n maxd choices dflt
                           (write_out (diagnostic ''Invalid selection'') s2))))"

definition select ::
  "nat \<Rightarrow> nat \<Rightarrow> string \<Rightarrow> 'a Choice list \<Rightarrow> int \<Rightarrow> io \<Rightarrow> 'a outcome \<times> io" where
  "select n maxd msg choices dflt s = select_loop n maxd choices dflt (select_header msg choices dflt s)"

subsection \<open>Prompt.multi_select\<close>

definition multi_select_line :: "nat \<Rightarrow> 'a Choice \<Rightarrow> string" where
  "multi_select_line i choice =
     ''  '' @ str_int (int i + 1) @ ''. '' @ label choice
     @ (if disabled choice then '' (disabled)'' else []) @ ''\<newline>''"

definition multi_select_header :: "string \<Rightarrow> 'a Choice list \<Rightarrow> io \<Rightarrow> io" where
  "multi_select_header msg choices s =
     fold (\<lambda>(i, choice). write_out (multi_select_line i choice)) (enumerate 0 choices)
       (write_out (msg @ '' (comma-separated numbers)\<newline>'') s)"

text \<open>\<^verbatim>\<open>[int(x.strip()) - 1 for x in value.split(",")]\<close>: \<open>None\<close> when one of
  the conversions raises \<^verbatim>\<open>ValueError\<close>.\<close>

definition parse_indices :: "nat \<Rightarrow> string \<Rightarrow> int list option" where
  "parse_indices maxd v =
     those (map (\<lambda>x. map_option (\<lambda>k. k - 1) (py_int maxd (strip x))) (split_on CHR '','' v))"

text \<open>The \<^verbatim>\<open>for idx in indices\<close> loop that builds \<^verbatim>\<open>selected\<close>.\<close>

fun collect :: "'a Choice list \<Rightarrow> int list \<Rightarrow> 'a list" where
  "collect choices [] = []"
| "collect choices (idx # rest) =
     (if 0 \<le> idx \<and> idx < int (length choices) \<and> \<not> disabled (choices ! nat idx)
      then cvalue (choices ! nat idx) # collect choices rest
      else collect choices rest)"

definition at_least :: "nat \<Rightarrow> int \<Rightarrow> string option" where
  "at_least maxd k =
     map_option (\<lambda>t. diagnostic (''Select at least '' @ t @ '' options'')) (fstr_int maxd k)"

definition at_most :: "nat \<Rightarrow> int \<Rightarrow> string option" where
  "at_most maxd k =
     map_option (\<lambda>t. diagnostic (''Select at most '' @ t @ '' options'')) (fstr_int maxd k)"

text \<open>\<^verbatim>\<open>max_select and len(selected) > max_select\<close>: \<^verbatim>\<open>None\<close> and \<^verbatim>\<open>0\<close>
  both count as false.\<close>

definition over_max :: "int option \<Rightarrow> nat \<Rightarrow> bool" where
  "over_max max_select k =
     (case max_select of None \<Rightarrow> False | Some m \<Rightarrow> m \<noteq> 0 \<and> int k > m)"

text \<open>
  The \<^verbatim>\<open>try\<close> block of \<^verbatim>\<open>multi_select\<close> on a line that is not empty. It ends
  with \<^verbatim>\<open>return selected\<close>, or with a text to write before \<^verbatim>\<open>continue\<close>, or
  with the \<^verbatim>\<open>ValueError\<close> of \<^verbatim>\<open>int\<close> or of an f-string.
\<close>

datatype 'a attempt = Selected 'a | Again string

definition multi_select_try ::
  "nat \<Rightarrow> 'a Choice list \<Rightarrow> int \<Rightarrow> int option \<Rightarrow> string \<Rightarrow> error + 'a list attempt" where
  "multi_select_try maxd choices min_select max_select v =
     (case parse_indices maxd v of
        None \<Rightarrow> Inl ValueError
      | Some indices \<Rightarrow>
          (let selected = collect choices indices
           in if int (length selected) < min_select then
                (case at_least maxd min_select of
                   None \<Rightarrow> Inl ValueError
                 | Some t \<Rightarrow> Inr (Again t))
              else if over_max max_select (length selected) then
                (case at_most maxd (the max_select) of
                   None \<Rightarrow> Inl ValueError
                 | Some t \<Rightarrow> Inr (Again t))
              else Inr (Selected selected)))"

text \<open>The loop. On an empty line the message is built outside the \<^verbatim>\<open>try\<close> block,
  so there the \<^verbatim>\<open>ValueError\<close> of the f-string leaves the method.\<close>

fun multi_select_loop ::
  "nat \<Rightarrow> nat \<Rightarrow> 'a Choice list \<Rightarrow> int \<Rightarrow> int option \<Rightarrow> io \<Rightarrow> 'a list outcome \<times> io" where
  "multi_select_loop 0 maxd choices min_select max_select s = (OutOfFuel, s)"
| "multi_select_loop (Suc n) maxd choices min_select max_select s =
     (let s1 = write_out ''Enter choices: '' s;
          (v, s2) = read_in s1
      in if v = [] then
           (if min_select = 0 then (Returned [], s2)
            else (case at_least maxd min_select of
                    None \<Rightarrow> (Raised ValueError, s2)
                  | Some t \<Rightarrow>
                      multi_select_loop n maxd choices min_select max_select (write_out t s2)))
         else
           (case multi_select_try maxd choices min_select max_select v of
              Inl ValueError \<Rightarrow>
                multi_select_loop n maxd choices min_select max_select
                  (write_out (diagnostic ''Invalid input'') s2)
            | Inl e \<Rightarrow> (Raised e, s2)
            | Inr (Again t) \<Rightarrow>
                multi_select_loop n maxd choices min_select max_select (write_out t s2)
            | Inr (Selected selected) \<Rightarrow> (Returned selected, s2)))"

definition multi_select ::
  "nat \<Rightarrow> nat \<Rightarrow> string \<Rightarrow> 'a Choice list \<Rightarrow> int \<Rightarrow> int option \<Rightarrow> io
     \<Rightarrow> 'a list outcome \<times> io" where
  "multi_select n maxd msg choices min_select max_select s =
     multi_select_loop n maxd choices min_select max_select (multi_select_header msg choices s)"

subsection \<open>Prompt.autocomplete\<close>

fun autocomplete ::
  "nat \<Rightarrow> string \<Rightarrow> string list \<Rightarrow> validator list \<Rightarrow> io \<Rightarrow> string outcome \<times> io" where
  "autocomplete 0 msg suggestions validators s = (OutOfFuel, s)"
| "autocomplete (Suc n) msg suggestions validators s =
     (let s1 = write_out (msg @ '' (tab for suggestions): '') s;
          (v, s2) = read_in s1
      in if endswith v [CHR 0x09] then
           (let prefix = rstrip_chars (\<lambda>c. c = CHR 0x09) v;
                matches = filter (\<lambda>x. startswith x prefix) suggestions
            in autocomplete n msg suggestions validators
                 (if matches \<noteq> [] then
                    write_out (''  Suggestions: '' @ join '', '' (take 5 matches) @ ''\<newline>'') s2
                  else s2))
         else
           (case first_failure validators v of
              Inl e \<Rightarrow> (Raised e, s2)
            | Inr (Some result) \<Rightarrow>
                autocomplete n msg suggestions validators
                  (write_out (diagnostic (message result)) s2)
            | Inr None \<Rightarrow> (Returned v, s2)))"

subsection \<open>Reading the state\<close>

text \<open>The line the next call of \<^verbatim>\<open>_read\<close> returns: what \<^verbatim>\<open>readline\<close> delivers,
  without its trailing newlines.\<close>

definition next_line :: "io \<Rightarrow> string" where
  "next_line s =
     rstrip_chars (\<lambda>c. c = CHR ''\<newline>'') (case stream_in s of [] \<Rightarrow> [] | l # ls \<Rightarrow> l)"

text \<open>The streams after one call of \<^verbatim>\<open>_write\<close> with text \<open>t\<close> and one call of
  \<^verbatim>\<open>_read\<close>.\<close>

definition asked :: "string \<Rightarrow> io \<Rightarrow> io" where
  "asked t s =
     s\<lparr>stream_in := drop 1 (stream_in s),
       transcript := transcript s @ [Wrote t, ReadLine (next_line s)]\<rparr>"

subsection \<open>Reading the transcript\<close>

text \<open>A diagnostic is a text that \<^const>\<open>diagnostic\<close> builds: the mark, a message, a
  newline.\<close>

definition is_diagnostic :: "string \<Rightarrow> bool" where
  "is_diagnostic t = (startswith t cross \<and> endswith t ''\<newline>'' \<and> length cross < length t)"

fun reads :: "event list \<Rightarrow> string list" where
  "reads [] = []"
| "reads (Wrote t # es) = reads es"
| "reads (ReadLine l # es) = l # reads es"

text \<open>
  \<open>explained_but ex es\<close>: every line read in \<open>es\<close> is the last one read, or a
  diagnostic is written right after it, or the line is one that \<open>ex\<close> excuses.
\<close>

fun explained_but :: "(string \<Rightarrow> bool) \<Rightarrow> event list \<Rightarrow> bool" where
  "explained_but ex [] = True"
| "explained_but ex (Wrote t # es) = explained_but ex es"
| "explained_but ex (ReadLine l # es) =
     ((reads es = [] \<or> ex l \<or> (case es of Wrote t # es' \<Rightarrow> is_diagnostic t | _ \<Rightarrow> False))
      \<and> explained_but ex es)"

definition explained :: "event list \<Rightarrow> bool" where
  "explained es = explained_but (\<lambda>l. False) es"

text \<open>The events that a call added to the transcript, from the state before it and the
  state after it.\<close>

definition events_since :: "io \<Rightarrow> io \<Rightarrow> event list" where
  "events_since s s' = drop (length (transcript s)) (transcript s')"

section \<open>Properties\<close>

subsection \<open>One write, one read\<close>

lemma read_in_write_out: "read_in (write_out t s) = (next_line s, asked t s)"
  by (cases s; cases "stream_in s")
     (simp_all add: read_in_def readline_def next_line_def asked_def write_out_def Let_def)

lemma stream_in_write_out [simp]: "stream_in (write_out t s) = stream_in s"
  by (simp add: write_out_def)

lemma next_line_write_out [simp]: "next_line (write_out t s) = next_line s"
  by (simp add: next_line_def)

lemma stream_in_fold_write_out [simp]:
  "stream_in (fold (\<lambda>(i, c). write_out (f i c)) xs s) = stream_in s"
  by (induction xs arbitrary: s) auto

lemma next_line_select_header [simp]:
  "next_line (select_header msg choices dflt s) = next_line s"
  by (simp add: next_line_def select_header_def)

lemma next_line_multi_select_header [simp]:
  "next_line (multi_select_header msg choices s) = next_line s"
  by (simp add: next_line_def multi_select_header_def)

lemma lower_Nil_iff: "lower v = [] \<longleftrightarrow> v = []"
  by (simp add: lower_def)

subsection \<open>select: the default bypasses the disabled check\<close>

text \<open>
  C1. Whenever the choices are not empty, the default index lies in
  \<open>[0, len(choices))\<close> and the line that \<^verbatim>\<open>select\<close> reads is empty,
  \<^verbatim>\<open>select\<close> returns the value of the default choice. Nothing is assumed about
  the \<^verbatim>\<open>disabled\<close> flag of that choice.
\<close>

theorem select_empty_line_returns_default:
  assumes "choices \<noteq> []" and "0 \<le> dflt" and "dflt < int (length choices)"
    and "next_line s = []"
  shows "fst (select (Suc n) maxd msg choices dflt s) = Returned (cvalue (choices ! nat dflt))"
  using assms by (simp add: select_def read_in_write_out py_index_def)

theorem select_empty_line_returns_default_witness:
  "disabled ([\<lparr>cvalue = ''a'', label = ''A'', disabled = False, hint = []\<rparr>,
              \<lparr>cvalue = ''b'', label = ''B'', disabled = False, hint = []\<rparr>,
              \<lparr>cvalue = ''c'', label = ''C'', disabled = True, hint = []\<rparr>] ! 2)
   \<and> fst (select 1 4300 ''Pick''
             [\<lparr>cvalue = ''a'', label = ''A'', disabled = False, hint = []\<rparr>,
              \<lparr>cvalue = ''b'', label = ''B'', disabled = False, hint = []\<rparr>,
              \<lparr>cvalue = ''c'', label = ''C'', disabled = True, hint = []\<rparr>] 2
             \<lparr>stream_in = [''\<newline>''], tty_in = [], transcript = []\<rparr>)
       = Returned ''c''"
  using select_empty_line_returns_default
    [where choices = "[\<lparr>cvalue = ''a'', label = ''A'', disabled = False, hint = []\<rparr>,
                       \<lparr>cvalue = ''b'', label = ''B'', disabled = False, hint = []\<rparr>,
                       \<lparr>cvalue = ''c'', label = ''C'', disabled = True, hint = []\<rparr>]"
       and dflt = 2 and n = 0 and maxd = 4300 and msg = "''Pick''"
       and s = "\<lparr>stream_in = [''\<newline>''], tty_in = [], transcript = []\<rparr>"]
  by (simp add: next_line_def rstrip_chars_def)

subsection \<open>text without validators\<close>

text \<open>
  C6. With an empty validator chain (and \<^verbatim>\<open>password\<close> false, so that the line
  comes from the input stream) \<^verbatim>\<open>text\<close> returns in its first iteration, for every
  message and default: the first line read, without its trailing newline, or the default
  when that line is empty and the default is not. The streams afterwards show one prompt
  written and one line read, and nothing else.
\<close>

theorem text_no_validators:
  "text_prompt (Suc n) msg dflt [] False s =
     (Returned (if next_line s = [] \<and> dflt \<noteq> [] then dflt else next_line s),
      s\<lparr>stream_in := drop 1 (stream_in s),
        transcript := transcript s @
          [Wrote (msg @ (if dflt \<noteq> [] then '' ['' @ dflt @ '']'' else []) @ '': ''),
           ReadLine (next_line s)]\<rparr>)"
  by (simp add: read_in_write_out asked_def prompt_of_def Let_def)

theorem text_no_validators_witness:
  "text_prompt 1 ''Name'' ''bob'' [] False
     \<lparr>stream_in = [''\<newline>'', ''al\<newline>''], tty_in = [], transcript = []\<rparr>
   = (Returned ''bob'',
      \<lparr>stream_in = [''al\<newline>''], tty_in = [],
        transcript = [Wrote ''Name [bob]: '', ReadLine []]\<rparr>)
   \<and> text_prompt 1 ''Name'' ''bob'' [] False
     \<lparr>stream_in = [''al\<newline>''], tty_in = [], transcript = []\<rparr>
   = (Returned ''al'',
      \<lparr>stream_in = [], tty_in = [],
        transcript = [Wrote ''Name [bob]: '', ReadLine ''al'']\<rparr>)"
  using text_no_validators [where n = 0 and msg = "''Name''" and dflt = "''bob''"
      and s = "\<lparr>stream_in = [''\<newline>'', ''al\<newline>''], tty_in = [], transcript = []\<rparr>"]
    text_no_validators [where n = 0 and msg = "''Name''" and dflt = "''bob''"
      and s = "\<lparr>stream_in = [''al\<newline>''], tty_in = [], transcript = []\<rparr>"]
  by (simp add: next_line_def rstrip_chars_def)

subsection \<open>confirm\<close>

text \<open>
  C8. \<^verbatim>\<open>confirm\<close> has no loop: for every default it writes its prompt, reads one
  line and returns. The answer is the default when the line is empty; otherwise it is
  true exactly when the lowercased line is one of \<open>y\<close>, \<open>yes\<close>, \<open>true\<close>, \<open>1\<close>.
\<close>

theorem confirm_reads_once:
  "confirm msg dflt s =
     (if next_line s = [] then dflt
      else lower (next_line s) \<in> {''y'', ''yes'', ''true'', ''1''},
      s\<lparr>stream_in := drop 1 (stream_in s),
        transcript := transcript s @
          [Wrote (msg @ '' '' @ (if dflt then ''[Y/n]'' else ''[y/N]'') @ '': ''),
           ReadLine (next_line s)]\<rparr>)"
  by (simp add: confirm_def read_in_write_out asked_def Let_def lower_Nil_iff)

theorem confirm_reads_once_witness:
  "fst (confirm ''Go'' False \<lparr>stream_in = [''YES\<newline>''], tty_in = [], transcript = []\<rparr>)
   \<and> \<not> fst (confirm ''Go'' True \<lparr>stream_in = [''ok\<newline>''], tty_in = [], transcript = []\<rparr>)
   \<and> fst (confirm ''Go'' True \<lparr>stream_in = [''\<newline>''], tty_in = [], transcript = []\<rparr>)"
  using confirm_reads_once [where msg = "''Go''" and dflt = False
      and s = "\<lparr>stream_in = [''YES\<newline>''], tty_in = [], transcript = []\<rparr>"]
    confirm_reads_once [where msg = "''Go''" and dflt = True
      and s = "\<lparr>stream_in = [''ok\<newline>''], tty_in = [], transcript = []\<rparr>"]
    confirm_reads_once [where msg = "''Go''" and dflt = True
      and s = "\<lparr>stream_in = [''\<newline>''], tty_in = [], transcript = []\<rparr>"]
  by (simp add: next_line_def rstrip_chars_def lower_def lower_char_def upper_chars_def
        lower_chars_def)


subsection \<open>multi_select: one attempt\<close>

lemma collect_eq:
  "collect choices idxs =
     map (\<lambda>i. cvalue (choices ! nat i))
       (filter (\<lambda>i. 0 \<le> i \<and> i < int (length choices) \<and> \<not> disabled (choices ! nat i)) idxs)"
  by (induction idxs) simp_all

lemma those_map_Some:
  "\<forall>x \<in> set xs. f x \<noteq> None \<Longrightarrow> those (map f xs) = Some (map (\<lambda>x. the (f x)) xs)"
  by (induction xs) auto

lemma those_map_None:
  "\<exists>x \<in> set xs. f x = None \<Longrightarrow> those (map f xs) = None"
  by (induction xs) (auto split: option.splits)

lemma parse_indices_Some:
  assumes "\<forall>x \<in> set (split_on CHR '','' v). py_int maxd (strip x) \<noteq> None"
  shows "parse_indices maxd v =
           Some (map (\<lambda>x. the (py_int maxd (strip x)) - 1) (split_on CHR '','' v))"
proof -
  have "\<forall>x \<in> set (split_on CHR '','' v). map_option (\<lambda>k. k - 1) (py_int maxd (strip x)) \<noteq> None"
    using assms by simp
  then have "parse_indices maxd v =
      Some (map (\<lambda>x. the (map_option (\<lambda>k. k - 1) (py_int maxd (strip x)))) (split_on CHR '','' v))"
    unfolding parse_indices_def by (rule those_map_Some)
  moreover have "map (\<lambda>x. the (map_option (\<lambda>k. k - 1) (py_int maxd (strip x)))) (split_on CHR '','' v)
      = map (\<lambda>x. the (py_int maxd (strip x)) - 1) (split_on CHR '','' v)"
    using assms by (auto simp: option.map_sel)
  ultimately show ?thesis by simp
qed

lemma parse_indices_None:
  assumes "\<exists>x \<in> set (split_on CHR '','' v). py_int maxd (strip x) = None"
  shows "parse_indices maxd v = None"
  unfolding parse_indices_def using assms by (intro those_map_None) auto

lemma multi_select_try_parsed:
  assumes "\<forall>x \<in> set (split_on CHR '','' v). py_int maxd (strip x) \<noteq> None"
  shows "multi_select_try maxd choices min_select max_select v =
     (let typed = map (\<lambda>x. the (py_int maxd (strip x)) - 1) (split_on CHR '','' v);
          kept = filter (\<lambda>i. 0 \<le> i \<and> i < int (length choices)
                              \<and> \<not> disabled (choices ! nat i)) typed;
          selected = map (\<lambda>i. cvalue (choices ! nat i)) kept
      in if int (length selected) < min_select then
           (case at_least maxd min_select of None \<Rightarrow> Inl ValueError | Some t \<Rightarrow> Inr (Again t))
         else if over_max max_select (length selected) then
           (case at_most maxd (the max_select) of
              None \<Rightarrow> Inl ValueError | Some t \<Rightarrow> Inr (Again t))
         else Inr (Selected selected))"
  by (simp add: multi_select_try_def parse_indices_Some [OF assms] collect_eq Let_def)

lemma multi_select_try_unparsed:
  assumes "\<exists>x \<in> set (split_on CHR '','' v). py_int maxd (strip x) = None"
  shows "multi_select_try maxd choices min_select max_select v = Inl ValueError"
  by (simp add: multi_select_try_def parse_indices_None [OF assms])

text \<open>
  C4. One attempt of \<^verbatim>\<open>multi_select\<close> on a line that is not empty. When every
  comma-separated token, stripped of surrounding whitespace, parses as an integer, the
  list \<open>selected\<close> holds, in the order typed and with duplicates kept, the value of
  the choice at each typed 0-based index that lies in \<open>[0, len(choices))\<close> and whose
  choice is not disabled; the other indices are dropped without a message. The list is
  returned unless a cardinality bound sends the loop around again, after the message of
  that bound or, when the bound is too long to print, after \<open>Invalid input\<close>. When a
  token does not parse, the attempt ends with the diagnostic \<open>Invalid input\<close> and the
  loop reads again with nothing kept.
\<close>

theorem multi_select_attempt:
  assumes "next_line s \<noteq> []"
  shows
   "((\<forall>x \<in> set (split_on CHR '','' (next_line s)). py_int maxd (strip x) \<noteq> None) \<longrightarrow>
       multi_select_loop (Suc n) maxd choices min_select max_select s =
        (let typed = map (\<lambda>x. the (py_int maxd (strip x)) - 1) (split_on CHR '','' (next_line s));
             kept = filter (\<lambda>i. 0 \<le> i \<and> i < int (length choices)
                                 \<and> \<not> disabled (choices ! nat i)) typed;
             selected = map (\<lambda>i. cvalue (choices ! nat i)) kept
         in if int (length selected) < min_select then
              multi_select_loop n maxd choices min_select max_select
                (write_out (case at_least maxd min_select of
                              Some t \<Rightarrow> t | None \<Rightarrow> diagnostic ''Invalid input'')
                   (asked ''Enter choices: '' s))
            else if over_max max_select (length selected) then
              multi_select_loop n maxd choices min_select max_select
                (write_out (case at_most maxd (the max_select) of
                              Some t \<Rightarrow> t | None \<Rightarrow> diagnostic ''Invalid input'')
                   (asked ''Enter choices: '' s))
            else (Returned selected, asked ''Enter choices: '' s)))
    \<and> ((\<exists>x \<in> set (split_on CHR '','' (next_line s)). py_int maxd (strip x) = None) \<longrightarrow>
       multi_select_loop (Suc n) maxd choices min_select max_select s =
         multi_select_loop n maxd choices min_select max_select
           (write_out (diagnostic ''Invalid input'') (asked ''Enter choices: '' s)))"
proof (intro conjI impI)
  assume parsed: "\<forall>x \<in> set (split_on CHR '','' (next_line s)). py_int maxd (strip x) \<noteq> None"
  show "multi_select_loop (Suc n) maxd choices min_select max_select s =
        (let typed = map (\<lambda>x. the (py_int maxd (strip x)) - 1) (split_on CHR '','' (next_line s));
             kept = filter (\<lambda>i. 0 \<le> i \<and> i < int (length choices)
                                 \<and> \<not> disabled (choices ! nat i)) typed;
             selected = map (\<lambda>i. cvalue (choices ! nat i)) kept
         in if int (length selected) < min_select then
              multi_select_loop n maxd choices min_select max_select
                (write_out (case at_least maxd min_select of
                              Some t \<Rightarrow> t | None \<Rightarrow> diagnostic ''Invalid input'')
                   (asked ''Enter choices: '' s))
            else if over_max max_select (length selected) then
              multi_select_loop n maxd choices min_select max_select
                (write_out (case at_most maxd (the max_select) of
                              Some t \<Rightarrow> t | None \<Rightarrow> diagnostic ''Invalid input'')
                   (asked ''Enter choices: '' s))
            else (Returned selected, asked ''Enter choices: '' s))"
    using assms
    by (simp add: read_in_write_out multi_select_try_parsed [OF parsed] Let_def
             del: multi_select_loop.simps(1) split_on.simps split: option.splits)
next
  assume unparsed: "\<exists>x \<in> set (split_on CHR '','' (next_line s)). py_int maxd (strip x) = None"
  show "multi_select_loop (Suc n) maxd choices min_select max_select s =
         multi_select_loop n maxd choices min_select max_select
           (write_out (diagnostic ''Invalid input'') (asked ''Enter choices: '' s))"
    using assms
    by (simp add: read_in_write_out multi_select_try_unparsed [OF unparsed]
             del: multi_select_loop.simps(1) split_on.simps)
qed

lemma str_nat_digit: "n < 10 \<Longrightarrow> str_nat n = [digit_char n]"
  by (simp add: str_nat.simps)


lemma int_printable_small: "\<bar>k\<bar> < 10 \<Longrightarrow> maxd \<noteq> 0 \<Longrightarrow> int_printable maxd k"
  by (simp add: int_printable_def str_nat_digit)


lemmas eval_defs = next_line_def rstrip_chars_def py_int_def strip_def num_space_def py_isspace_def
  is_digit_def nat_of_digits_def digit_val_def over_max_def asked_def write_out_def
  at_least_def at_most_def fstr_int_def int_printable_small

theorem multi_select_attempt_witness:
  "multi_select_loop 1 4300
     [\<lparr>cvalue = ''a'', label = ''A'', disabled = False, hint = []\<rparr>,
      \<lparr>cvalue = ''b'', label = ''B'', disabled = False, hint = []\<rparr>,
      \<lparr>cvalue = ''c'', label = ''C'', disabled = True, hint = []\<rparr>] 1 (Some 2)
     \<lparr>stream_in = [''1,3,2\<newline>''], tty_in = [], transcript = []\<rparr>
   = (Returned [''a'', ''b''],
      \<lparr>stream_in = [], tty_in = [],
        transcript = [Wrote ''Enter choices: '', ReadLine ''1,3,2'']\<rparr>)
   \<and> multi_select_loop 1 4300
     [\<lparr>cvalue = ''a'', label = ''A'', disabled = False, hint = []\<rparr>] 0 None
     \<lparr>stream_in = [''1,x\<newline>''], tty_in = [], transcript = []\<rparr>
   = (OutOfFuel,
      \<lparr>stream_in = [], tty_in = [],
        transcript = [Wrote ''Enter choices: '', ReadLine ''1,x'',
                      Wrote (diagnostic ''Invalid input'')]\<rparr>)"
  using multi_select_attempt
    [where s = "\<lparr>stream_in = [''1,3,2\<newline>''], tty_in = [], transcript = []\<rparr>"
       and maxd = 4300 and n = 0 and min_select = 1 and max_select = "Some 2"
       and choices = "[\<lparr>cvalue = ''a'', label = ''A'', disabled = False, hint = []\<rparr>,
                       \<lparr>cvalue = ''b'', label = ''B'', disabled = False, hint = []\<rparr>,
                       \<lparr>cvalue = ''c'', label = ''C'', disabled = True, hint = []\<rparr>]"]
    multi_select_attempt
    [where s = "\<lparr>stream_in = [''1,x\<newline>''], tty_in = [], transcript = []\<rparr>"
       and maxd = 4300 and n = 0 and min_select = 0 and max_select = None
       and choices = "[\<lparr>cvalue = ''a'', label = ''A'', disabled = False, hint = []\<rparr>]"]
  by (simp add: eval_defs)

text \<open>
  C2. The bound \<^verbatim>\<open>max_select\<close> is tested for truth before it is compared, so
  the bound 0 is not enforced: with \<^verbatim>\<open>min_select = 0\<close>, \<^verbatim>\<open>max_select = 0\<close>
  and the line \<open>1\<close>, one value is returned in the first iteration.
\<close>

theorem multi_select_max_zero_unchecked:
  "fst (multi_select 1 4300 ''Pick''
          [\<lparr>cvalue = ''a'', label = ''A'', disabled = False, hint = []\<rparr>] 0 (Some 0)
          \<lparr>stream_in = [''1\<newline>''], tty_in = [], transcript = []\<rparr>)
   = Returned [''a'']"
  by (simp add: multi_select_def multi_select_header_def read_in_def readline_def
        multi_select_try_def parse_indices_def eval_defs Let_def)


subsection \<open>Re-prompting\<close>

lemma is_diagnostic_diagnostic [simp]: "is_diagnostic (diagnostic m)"
  by (simp add: is_diagnostic_def diagnostic_def startswith_def endswith_def cross_def)

lemma is_diagnostic_at_least: "at_least maxd k = Some t \<Longrightarrow> is_diagnostic t"
  by (auto simp: at_least_def)

lemma is_diagnostic_at_most: "at_most maxd k = Some t \<Longrightarrow> is_diagnostic t"
  by (auto simp: at_most_def)

lemma multi_select_try_Again:
  "multi_select_try maxd choices min_select max_select v = Inr (Again t) \<Longrightarrow> is_diagnostic t"
  by (auto simp: multi_select_try_def Let_def is_diagnostic_at_least is_diagnostic_at_most
           split: option.splits if_splits)

lemma transcript_write_out [simp]: "transcript (write_out t s) = transcript s @ [Wrote t]"
  by (simp add: write_out_def)

lemma transcript_asked [simp]:
  "transcript (asked t s) = transcript s @ [Wrote t, ReadLine (next_line s)]"
  by (simp add: asked_def)

lemma getpass_transcript:
  "getpass s = Inr (v, s') \<Longrightarrow> transcript s' = transcript s @ [ReadLine v]"
  by (auto simp: getpass_def Let_def split: list.splits)

lemma explained_but_round:
  "explained_but ex (Wrote p # ReadLine v # Wrote (diagnostic m) # es) = explained_but ex es"
  by simp

lemma text_prompt_events:
  "\<exists>es. transcript (snd (text_prompt n msg dflt validators password s)) = transcript s @ es
        \<and> explained_but ex es"
proof (induction n arbitrary: s)
  case 0
  show ?case by simp
next
  case (Suc n)
  let ?p = "prompt_of msg dflt"
  have retry: "\<exists>es. transcript (snd (text_prompt n msg dflt validators password
                 (write_out (diagnostic m) s2))) = transcript s @ es
               \<and> explained_but ex es"
    if "transcript s2 = transcript s @ [Wrote ?p, ReadLine v]" for m s2 v
  proof -
    from Suc.IH [of "write_out (diagnostic m) s2"] that
    obtain es where "transcript (snd (text_prompt n msg dflt validators password
          (write_out (diagnostic m) s2)))
        = transcript s @ [Wrote ?p, ReadLine v, Wrote (diagnostic m)] @ es"
      "explained_but ex es" by auto
    then show ?thesis by simp
  qed
  have fin: "\<exists>es. transcript s2 = transcript s @ es \<and> explained_but ex es"
    if "transcript s2 = transcript s @ [Wrote ?p, ReadLine v]" for s2 v
    using that by simp
  show ?case
  proof (cases password)
    case False
    have tr: "transcript (asked ?p s) = transcript s @ [Wrote ?p, ReadLine (next_line s)]"
      by simp
    show ?thesis
      using False retry [OF tr] fin [OF tr]
      by (simp add: read_in_write_out Let_def split: sum.splits option.splits)
  next
    case True
    show ?thesis
    proof (cases "getpass (write_out ?p s)")
      case (Inl e)
      with True show ?thesis by simp
    next
      case (Inr r)
      obtain raw s2 where r: "r = (raw, s2)" by (cases r)
      have tr: "transcript s2 = transcript s @ [Wrote ?p, ReadLine raw]"
        using getpass_transcript [OF Inr [unfolded r]] by simp
      show ?thesis
        using True Inr r retry [OF tr] fin [OF tr]
        by (simp add: Let_def split: sum.splits option.splits)
    qed
  qed
qed

lemma select_loop_events:
  "\<exists>es. transcript (snd (select_loop n maxd choices dflt s)) = transcript s @ es
        \<and> explained_but ex es"
proof (induction n arbitrary: s)
  case 0
  show ?case by simp
next
  case (Suc n)
  let ?p = "''Enter choice [1-'' @ str_int (int (length choices)) @ '']: ''"
  have retry: "\<exists>es. transcript (snd (select_loop n maxd choices dflt
                 (write_out (diagnostic m) (asked ?p s)))) = transcript s @ es
               \<and> explained_but ex es" for m
  proof -
    from Suc.IH [of "write_out (diagnostic m) (asked ?p s)"]
    obtain es where "transcript (snd (select_loop n maxd choices dflt
          (write_out (diagnostic m) (asked ?p s))))
        = transcript s @ [Wrote ?p, ReadLine (next_line s), Wrote (diagnostic m)] @ es"
      "explained_but ex es" by auto
    then show ?thesis by simp
  qed
  have fin: "\<exists>es. transcript (asked ?p s) = transcript s @ es \<and> explained_but ex es"
    by simp
  show ?case
    using retry fin
    by (simp add: read_in_write_out Let_def split: sum.splits option.splits)
qed

lemma multi_select_loop_events:
  "\<exists>es. transcript (snd (multi_select_loop n maxd choices min_select max_select s))
          = transcript s @ es
        \<and> explained_but ex es"
proof (induction n arbitrary: s)
  case 0
  show ?case by simp
next
  case (Suc n)
  let ?p = "''Enter choices: ''"
  have retry: "\<exists>es. transcript (snd (multi_select_loop n maxd choices min_select max_select
                 (write_out t (asked ?p s)))) = transcript s @ es
               \<and> explained_but ex es" if "is_diagnostic t" for t
  proof -
    from Suc.IH [of "write_out t (asked ?p s)"]
    obtain es where "transcript (snd (multi_select_loop n maxd choices min_select max_select
          (write_out t (asked ?p s))))
        = transcript s @ [Wrote ?p, ReadLine (next_line s), Wrote t] @ es"
      "explained_but ex es" by auto
    with that show ?thesis by simp
  qed
  have fin: "\<exists>es. transcript (asked ?p s) = transcript s @ es \<and> explained_but ex es"
    by simp
  show ?case
    using retry fin
    by (auto simp: read_in_write_out Let_def is_diagnostic_at_least multi_select_try_Again
             split: option.splits sum.splits error.splits attempt.splits)
qed

lemma autocomplete_events:
  "\<exists>es. transcript (snd (autocomplete n msg suggestions validators s)) = transcript s @ es
        \<and> explained_but (\<lambda>l. endswith l [CHR 0x09]) es"
proof (induction n arbitrary: s)
  case 0
  show ?case by simp
next
  case (Suc n)
  let ?p = "msg @ '' (tab for suggestions): ''"
  let ?ex = "\<lambda>l. endswith l [CHR 0x09]"
  have retry: "\<exists>es. transcript (snd (autocomplete n msg suggestions validators
                 (write_out (diagnostic m) (asked ?p s)))) = transcript s @ es
               \<and> explained_but ?ex es" for m
  proof -
    from Suc.IH [of "write_out (diagnostic m) (asked ?p s)"]
    obtain es where "transcript (snd (autocomplete n msg suggestions validators
          (write_out (diagnostic m) (asked ?p s))))
        = transcript s @ [Wrote ?p, ReadLine (next_line s), Wrote (diagnostic m)] @ es"
      "explained_but ?ex es" by auto
    then show ?thesis by simp
  qed
  have again: "\<exists>es. transcript (snd (autocomplete n msg suggestions validators
                 (asked ?p s))) = transcript s @ es
               \<and> explained_but ?ex es" if "?ex (next_line s)"
  proof -
    from Suc.IH [of "asked ?p s"]
    obtain es where "transcript (snd (autocomplete n msg suggestions validators (asked ?p s)))
        = transcript s @ [Wrote ?p, ReadLine (next_line s)] @ es"
      "explained_but ?ex es" by auto
    with that show ?thesis by simp
  qed
  have suggest: "\<exists>es. transcript (snd (autocomplete n msg suggestions validators
                 (write_out t (asked ?p s)))) = transcript s @ es
               \<and> explained_but ?ex es" if "?ex (next_line s)" for t
  proof -
    from Suc.IH [of "write_out t (asked ?p s)"]
    obtain es where "transcript (snd (autocomplete n msg suggestions validators
          (write_out t (asked ?p s))))
        = transcript s @ [Wrote ?p, ReadLine (next_line s), Wrote t] @ es"
      "explained_but ?ex es" by auto
    with that show ?thesis by simp
  qed
  have fin: "\<exists>es. transcript (asked ?p s) = transcript s @ es \<and> explained_but ?ex es"
    by simp
  show ?case
    using retry again suggest fin
    by (simp add: read_in_write_out Let_def split: sum.splits option.splits)
qed


lemma transcript_fold_write_out:
  "transcript (fold (\<lambda>(i, c). write_out (f i c)) xs s)
     = transcript s @ map (\<lambda>(i, c). Wrote (f i c)) xs"
  by (induction xs arbitrary: s) auto

lemma explained_but_writes [simp]:
  "explained_but ex (map (\<lambda>(i, c). Wrote (f i c)) xs @ es) = explained_but ex es"
  by (induction xs) auto

lemma events_since_append: "transcript s' = transcript s @ es \<Longrightarrow> events_since s s' = es"
  by (simp add: events_since_def)

lemma select_events:
  "\<exists>es. transcript (snd (select n maxd msg choices dflt s)) = transcript s @ es
        \<and> explained_but ex es"
proof -
  let ?h = "select_header msg choices dflt s"
  obtain es where es: "transcript (snd (select_loop n maxd choices dflt ?h)) = transcript ?h @ es"
    "explained_but ex es"
    using select_loop_events [of n maxd choices dflt ?h ex] by auto
  have "transcript ?h = transcript s @ Wrote (msg @ ''\<newline>'')
          # map (\<lambda>(i, c). Wrote (select_line dflt i c)) (enumerate 0 choices)"
    by (simp add: select_header_def transcript_fold_write_out)
  with es show ?thesis by (simp add: select_def)
qed

lemma multi_select_events:
  "\<exists>es. transcript (snd (multi_select n maxd msg choices min_select max_select s))
          = transcript s @ es
        \<and> explained_but ex es"
proof -
  let ?h = "multi_select_header msg choices s"
  obtain es where es:
    "transcript (snd (multi_select_loop n maxd choices min_select max_select ?h))
       = transcript ?h @ es"
    "explained_but ex es"
    using multi_select_loop_events [of n maxd choices min_select max_select ?h ex] by auto
  have "transcript ?h = transcript s @ Wrote (msg @ '' (comma-separated numbers)\<newline>'')
          # map (\<lambda>(i, c). Wrote (multi_select_line i c)) (enumerate 0 choices)"
    by (simp add: multi_select_header_def transcript_fold_write_out)
  with es show ?thesis by (simp add: multi_select_def)
qed

text \<open>
  C3, as the code has it. For every bound on the iterations and every state of the
  streams: in \<^verbatim>\<open>text\<close>, \<^verbatim>\<open>select\<close> and \<^verbatim>\<open>multi_select\<close>, every line read
  is the last one read or has a diagnostic written right after it; in
  \<^verbatim>\<open>autocomplete\<close> the same holds of every line that does not end with a tab. A
  line that ends with a tab is a request for suggestions, and the prompt comes again
  after it without a diagnostic.
\<close>

theorem reprompts_explained:
  "explained (events_since s (snd (text_prompt n msg dflt validators password s)))
   \<and> explained (events_since s (snd (select n maxd msg choices default_index s)))
   \<and> explained (events_since s (snd (multi_select n maxd msg choices' min_select max_select s)))
   \<and> explained_but (\<lambda>l. endswith l [CHR 0x09])
        (events_since s (snd (autocomplete n msg suggestions validators s)))"
proof -
  have "explained (events_since s (snd (text_prompt n msg dflt validators password s)))"
    using text_prompt_events [of n msg dflt validators password s "\<lambda>l. False"]
    by (auto simp: explained_def events_since_append)
  moreover have "explained (events_since s (snd (select n maxd msg choices default_index s)))"
    using select_events [of n maxd msg choices default_index s "\<lambda>l. False"]
    by (auto simp: explained_def events_since_append)
  moreover have
    "explained (events_since s (snd (multi_select n maxd msg choices' min_select max_select s)))"
    using multi_select_events [of n maxd msg choices' min_select max_select s "\<lambda>l. False"]
    by (auto simp: explained_def events_since_append)
  moreover have "explained_but (\<lambda>l. endswith l [CHR 0x09])
        (events_since s (snd (autocomplete n msg suggestions validators s)))"
    using autocomplete_events [of n msg suggestions validators s]
    by (auto simp: events_since_append)
  ultimately show ?thesis by simp
qed

lemmas run_defs = read_in_def readline_def write_out_def rstrip_chars_def events_since_def
  explained_def is_diagnostic_def diagnostic_def cross_def startswith_def endswith_def Let_def

text \<open>
  C3, as stated, fails for \<^verbatim>\<open>autocomplete\<close>: with no suggestions, the line
  \<open>ab\<close> followed by a tab is read, nothing is written but the prompt, and the next
  line is read.
\<close>

theorem autocomplete_silent_reprompt:
  "\<not> explained (events_since \<lparr>stream_in = [''ab'' @ [CHR 0x09, CHR ''\<newline>''], ''abc\<newline>''],
                                tty_in = [], transcript = []\<rparr>
        (snd (autocomplete 2 ''Name'' [] []
           \<lparr>stream_in = [''ab'' @ [CHR 0x09, CHR ''\<newline>''], ''abc\<newline>''],
             tty_in = [], transcript = []\<rparr>)))"
  by (simp add: run_defs numeral_2_eq_2)

theorem reprompts_explained_witness:
  "explained (events_since \<lparr>stream_in = [''4\<newline>'', ''3\<newline>'', ''1\<newline>''],
                            tty_in = [], transcript = []\<rparr>
      (snd (select 3 4300 ''Pick''
         [\<lparr>cvalue = ''a'', label = ''A'', disabled = False, hint = []\<rparr>,
          \<lparr>cvalue = ''b'', label = ''B'', disabled = False, hint = []\<rparr>,
          \<lparr>cvalue = ''c'', label = ''C'', disabled = True, hint = []\<rparr>] 0
         \<lparr>stream_in = [''4\<newline>'', ''3\<newline>'', ''1\<newline>''],
           tty_in = [], transcript = []\<rparr>)))
   \<and> reads (transcript (snd (select 3 4300 ''Pick''
         [\<lparr>cvalue = ''a'', label = ''A'', disabled = False, hint = []\<rparr>,
          \<lparr>cvalue = ''b'', label = ''B'', disabled = False, hint = []\<rparr>,
          \<lparr>cvalue = ''c'', label = ''C'', disabled = True, hint = []\<rparr>] 0
         \<lparr>stream_in = [''4\<newline>'', ''3\<newline>'', ''1\<newline>''],
           tty_in = [], transcript = []\<rparr>)))
     = [''4'', ''3'', ''1'']"
  using reprompts_explained [where n = 3 and maxd = 4300 and msg = "''Pick''" and default_index = 0
      and choices = "[\<lparr>cvalue = ''a'', label = ''A'', disabled = False, hint = []\<rparr>,
          \<lparr>cvalue = ''b'', label = ''B'', disabled = False, hint = []\<rparr>,
          \<lparr>cvalue = ''c'', label = ''C'', disabled = True, hint = []\<rparr>]"
      and s = "\<lparr>stream_in = [''4\<newline>'', ''3\<newline>'', ''1\<newline>''],
           tty_in = [], transcript = []\<rparr>"]
  by (simp add: select_def select_header_def run_defs eval_defs numeral_3_eq_3)


subsection \<open>Validator.pattern\<close>

lemma matches_append:
  "eol_free r \<Longrightarrow> matches r u i j \<Longrightarrow> matches r (u @ w) i j"
proof (induction r u i j rule: matches.induct)
  case (1 s i j)
  then show ?case by (simp add: matches.simps(1))
next
  case (2 cs s i j)
  then show ?case by (simp add: matches.simps(2) nth_append)
next
  case (3 cs s i j)
  then show ?case by (simp add: matches.simps(3) nth_append)
next
  case (4 a b s i j)
  from "4.prems" obtain k where k: "k \<in> {i..j}" "matches a s i k" "matches b s k j"
    by (auto simp: matches.simps(4))
  from "4.prems" have free: "eol_free a" "eol_free b" by simp_all
  have "matches a (s @ w) i k" using "4.IH"(1) [OF k(1) free(1) k(2)] .
  moreover have "matches b (s @ w) k j" using "4.IH"(2) [OF k(1) free(2) k(3)] .
  ultimately show ?case using k(1) by (auto simp: matches.simps(4))
next
  case (5 a b s i j)
  then show ?case by (auto simp: matches.simps(5))
next
  case (6 a s i j)
  from "6.prems"(2) have "i = j \<or> (\<exists>k \<in> {i<..j}. matches a s i k \<and> matches (Star a) s k j)"
    by (subst (asm) matches.simps(6))
  then show ?case
  proof
    assume "i = j"
    then show ?thesis by (subst matches.simps(6)) simp
  next
    assume "\<exists>k \<in> {i<..j}. matches a s i k \<and> matches (Star a) s k j"
    then obtain k where k: "k \<in> {i<..j}" "matches a s i k" "matches (Star a) s k j" by auto
    from "6.prems"(1) have free: "eol_free a" by simp
    have "matches a (s @ w) i k" using "6.IH"(1) [OF k(1) free k(2)] .
    moreover have "matches (Star a) (s @ w) k j" using "6.IH"(2) [OF k(1) "6.prems"(1) k(3)] .
    ultimately show ?thesis using k(1) by (subst matches.simps(6)) auto
  qed
next
  case (7 s i j)
  then show ?case by (simp add: matches.simps(7))
next
  case (8 s i j)
  then show ?case by simp
qed

lemma re_match_iff: "re_match r v \<longleftrightarrow> (\<exists>j \<le> length v. matches r v 0 j)"
  by (auto simp: re_match_def)

text \<open>
  C7. For every pattern and message, \<^verbatim>\<open>pattern\<close> answers invalid, with that
  message, exactly when the pattern matches no stretch of the input that starts at
  position 0. A match need not reach the end of the input: when a pattern without
  \<^verbatim>\<open>$\<close> matches the whole of \<open>u\<close>, every input that starts with \<open>u\<close> passes.
\<close>

theorem pattern_match_semantics:
  "(pattern r msg v = Inr (Result False msg) \<longleftrightarrow> \<not> (\<exists>j \<le> length v. matches r v 0 j))
   \<and> ((\<exists>j \<le> length v. matches r v 0 j) \<longrightarrow> pattern r msg v = Inr Valid)
   \<and> (eol_free r \<and> matches r u 0 (length u) \<longrightarrow> pattern r msg (u @ w) = Inr Valid)"
proof -
  have "re_match r (u @ w)" if "eol_free r" "matches r u 0 (length u)"
  proof -
    have "matches r (u @ w) 0 (length u)" using matches_append [OF that, of w] .
    moreover have "length u \<le> length (u @ w)" by simp
    ultimately show ?thesis unfolding re_match_iff by blast
  qed
  then show ?thesis
    by (auto simp: pattern_def re_match_iff Result_def Valid_def)
qed

lemma matches_a_ab: "matches (OneOf ''a'') ''a'' 0 1"
  by (simp add: matches.simps(2))

lemma not_matches_a_ab: "\<not> matches (OneOf ''a'') ''ab'' 0 (Suc (Suc 0))"
  by (simp add: matches.simps(2))

lemma not_matches_a_b: "\<not> matches (OneOf ''a'') ''ba'' 0 j"
  by (simp add: matches.simps(2))

theorem pattern_match_semantics_witness:
  "pattern (OneOf ''a'') ''Invalid format'' ''ab'' = Inr Valid
   \<and> \<not> matches (OneOf ''a'') ''ab'' 0 (length ''ab'')
   \<and> pattern (OneOf ''a'') ''Invalid format'' ''ba'' = Inr (Result False ''Invalid format'')"
  using pattern_match_semantics [where r = "OneOf ''a''" and msg = "''Invalid format''"
      and u = "''a''" and w = "''b''" and v = "''ba''"]
    matches_a_ab not_matches_a_ab not_matches_a_b
  by simp

subsection \<open>The validators and exceptions\<close>





subsection \<open>Validator.number\<close>

lemma float_less_NaN [simp]: "float_less x NaN = False"
  by (cases x) simp_all


lemma py_float_nan: "py_float ''nan'' = Some NaN"
  by code_simp










text \<open>
  C10. Whatever the bounds, \<^verbatim>\<open>number\<close> accepts the input \<open>nan\<close>: it parses as a
  float, and a comparison with not-a-number is false, so neither bound check fires.
\<close>

theorem number_accepts_nan: "number maxd fmt min_val max_val ''nan'' = Inr Valid"
  by (simp add: number_def number_try_def py_float_nan)

theorem number_accepts_nan_witness:
  "number 4300 (\<lambda>f. []) (Some (PyInt 0)) (Some (PyFloat (Finite 150))) ''nan'' = Inr Valid
   \<and> number 4300 (\<lambda>f. []) (Some (PyFloat PInf)) None ''nan'' = Inr Valid"
  using number_accepts_nan [where maxd = 4300 and fmt = "\<lambda>f. []" and min_val = "Some (PyInt 0)"
      and max_val = "Some (PyFloat (Finite 150))"]
    number_accepts_nan [where maxd = 4300 and fmt = "\<lambda>f. []" and min_val = "Some (PyFloat PInf)"
      and max_val = None]
  by simp





end
